theory Spec2Isabelle
  imports Main
begin

section \<open>Values, requests and responses\<close>

text \<open>
  The service is an Express application with two routes,
  \<^verbatim>\<open>POST /api/check-subscription\<close> and \<^verbatim>\<open>POST /webhook/stripe\<close>, and four helper
  functions that mirror payment events into a table \<^verbatim>\<open>subscriptions\<close>. The two SDK clients
  (payment provider, store) and the clock are outside the repository; their answers are
  inputs of the model (\<open>env\<close>), and the table is an explicit state (\<open>world\<close>). Console
  output is not modelled.

  \<open>jsval\<close> is a JavaScript value as far as the handlers look at one. \<open>Undefined\<close> is what
  reading an absent property gives. \<open>Num\<close> carries integer-valued numbers only.
  \<open>Function n\<close> is a function of the runtime itself, such as the member
  \<^verbatim>\<open>constructor\<close> that every object literal inherits, and \<open>EmptyObject\<close> is an object
  without enumerable properties of its own, such as the inherited \<^verbatim>\<open>__proto__\<close>.
\<close>

datatype jsval =
  Undefined | Null | Bool bool | Num int | Str string | Function string | EmptyObject

text \<open>What \<^verbatim>\<open>if (v)\<close> and \<^verbatim>\<open>!v\<close> test: the falsy values are undefined, null, false, 0 and "".\<close>

fun truthy :: "jsval \<Rightarrow> bool" where
  "truthy Undefined = False"
| "truthy Null = False"
| "truthy (Bool b) = b"
| "truthy (Num n) = (n \<noteq> 0)"
| "truthy (Str s) = (s \<noteq> [])"
| "truthy (Function n) = True"
| "truthy EmptyObject = True"

text \<open>An awaited call either returns a value or throws; \<open>Thrown\<close> carries \<^verbatim>\<open>err.message\<close>.\<close>

datatype 'a outcome = Returned 'a | Thrown string

text \<open>
  \<^verbatim>\<open>res.status(c).json(obj)\<close> is \<open>\<lparr>code = c, body = Json obj\<rparr>\<close> with the object's properties in
  the order of the source; \<^verbatim>\<open>res.json(obj)\<close> alone answers with code 200;
  \<^verbatim>\<open>res.status(c).send(text)\<close> has a \<open>Text\<close> body.
\<close>

datatype body = Json "(string \<times> jsval) list" | Text string

record response =
  code :: nat
  body :: body

text \<open>The parsed JSON body of a query request: \<^verbatim>\<open>const { userId, email } = req.body\<close>.\<close>

record request_body =
  req_userId :: jsval
  req_email :: jsval

section \<open>The subscriptions table\<close>

text \<open>
  One row of the table \<^verbatim>\<open>subscriptions\<close>, with the eight columns the source reads or
  writes. The same record is the payload of a write: there a column that is \<open>Undefined\<close>
  (or a \<open>Function\<close>, which JSON cannot carry) is a column the payload does not have.
\<close>

record row =
  user_id :: jsval
  email :: jsval
  stripe_customer_id :: jsval
  subscription_tier :: jsval
  status :: jsval
  stripe_subscription_id :: jsval
  current_period_end :: jsval
  updated_at :: jsval

text \<open>The calls a request makes to the two external clients, in the order made.\<close>

datatype call =
    RetrieveCustomer string
  | SelectSingle string jsval
  | Upsert row
  | Update row string jsval

record world =
  table :: "row list"
  trace :: "call list"

text \<open>How the store answers the one call a request makes to it.\<close>

datatype fault = Healthy | Failing string | Crashing string

text \<open>The \<^verbatim>\<open>{ data, error }\<close> object a store call resolves to.\<close>

record reply =
  data :: "row option"
  error :: "string option"

record customer =
  cust_id :: string
  cust_email :: jsval

text \<open>
  The object of a payment event, with the properties the handlers read:
  \<^verbatim>\<open>id\<close>, \<^verbatim>\<open>customer\<close>, \<^verbatim>\<open>status\<close>, \<^verbatim>\<open>items.data[i].price.id\<close> for each line item, and
  \<^verbatim>\<open>current_period_end\<close> in seconds (\<open>None\<close> when the property is absent).
\<close>

record stripe_object =
  obj_id :: string
  obj_customer :: string
  obj_status :: string
  obj_items :: "string list"
  obj_current_period_end :: "int option"

record event =
  ev_type :: string
  ev_object :: stripe_object

text \<open>The raw webhook request: the unparsed body and the \<^verbatim>\<open>stripe-signature\<close> header.\<close>

record webhook_request =
  raw_body :: string
  stripe_signature :: "string option"

text \<open>
  The environment of one request. \<open>constructEvent\<close> is
  \<^verbatim>\<open>stripe.webhooks.constructEvent(req.body, sig, webhookSecret)\<close> (the secret is fixed at
  start-up), \<open>customers_retrieve\<close> is \<^verbatim>\<open>stripe.customers.retrieve\<close>, \<open>store_fault\<close> says how
  the store answers, \<open>now\<close> is the time value of \<^verbatim>\<open>new Date()\<close> in milliseconds,
  \<open>Date_parse\<close> and \<open>toISOString\<close> are the runtime's date functions (\<open>None\<close> is NaN).
\<close>

record env =
  constructEvent :: "string \<Rightarrow> string option \<Rightarrow> event outcome"
  customers_retrieve :: "string \<Rightarrow> customer outcome"
  store_fault :: fault
  now :: int
  Date_parse :: "string \<Rightarrow> int option"
  toISOString :: "int \<Rightarrow> string"

text \<open>The three price identifiers of the process environment (\<open>None\<close> when a variable is unset).\<close>

record config =
  PRICE_ID_BASIC :: "string option"
  PRICE_ID_PRO :: "string option"
  PRICE_ID_PREMIUM :: "string option"

subsection \<open>The store client\<close>

text \<open>
  The store client (\<^verbatim>\<open>@supabase/supabase-js\<close>) and the table behind it are external
  collaborators, not code of this repository. The spec describes them as "a
  key-value-ish relational table keyed by user identifier/email, supporting point lookups
  and upserts/updates by key", with "exactly one record per identity key", and the
  definitions of this subsection follow that description.
\<close>

text \<open>Modelled from the spec: the column of a row that a filter names.\<close>

definition column :: "string \<Rightarrow> row \<Rightarrow> jsval" where
  "column c r =
     (if c = ''user_id'' then user_id r
      else if c = ''email'' then email r
      else if c = ''stripe_customer_id'' then stripe_customer_id r
      else if c = ''subscription_tier'' then subscription_tier r
      else if c = ''status'' then status r
      else if c = ''stripe_subscription_id'' then stripe_subscription_id r
      else if c = ''current_period_end'' then current_period_end r
      else if c = ''updated_at'' then updated_at r
      else Undefined)"

text \<open>
  Modelled from the spec: the filter \<^verbatim>\<open>.eq(column, value)\<close> of the store client, a point
  lookup by key. It keeps the rows whose column equals the value.
\<close>

definition eq_match :: "string \<Rightarrow> jsval \<Rightarrow> row \<Rightarrow> bool" where
  "eq_match c v r = (column c r = v)"

text \<open>
  Modelled from the spec: which values of a payload reach the store. The client sends
  the payload as JSON, which drops the properties that are undefined or functions.
\<close>

fun transmitted :: "jsval \<Rightarrow> bool" where
  "transmitted Undefined = False"
| "transmitted (Function n) = False"
| "transmitted v = True"

text \<open>Modelled from the spec: the value of a column after a write.\<close>

definition pick :: "jsval \<Rightarrow> jsval \<Rightarrow> jsval" where
  "pick old new = (if transmitted new then new else old)"

text \<open>
  Modelled from the spec: writing a payload over a stored row sets the columns the
  payload has and keeps the others.
\<close>

definition overwrite :: "row \<Rightarrow> row \<Rightarrow> row" where
  "overwrite old p =
     \<lparr> user_id = pick (user_id old) (user_id p),
       email = pick (email old) (email p),
       stripe_customer_id = pick (stripe_customer_id old) (stripe_customer_id p),
       subscription_tier = pick (subscription_tier old) (subscription_tier p),
       status = pick (status old) (status p),
       stripe_subscription_id = pick (stripe_subscription_id old) (stripe_subscription_id p),
       current_period_end = pick (current_period_end old) (current_period_end p),
       updated_at = pick (updated_at old) (updated_at p) \<rparr>"

text \<open>Modelled from the spec: a new row starts with every column null.\<close>

definition null_row :: row where
  "null_row =
     \<lparr> user_id = Null, email = Null, stripe_customer_id = Null, subscription_tier = Null,
       status = Null, stripe_subscription_id = Null, current_period_end = Null,
       updated_at = Null \<rparr>"

text \<open>
  Modelled from the spec: \<^verbatim>\<open>.select('*').eq(c, v).single()\<close> of the store client on a
  working store. Exactly one matching row is the data; no row, or more than one, is
  reported in \<open>error\<close> with no data.
\<close>

definition single :: "row list \<Rightarrow> reply" where
  "single rs =
     (case rs of
        [r] \<Rightarrow> \<lparr>data = Some r, error = None\<rparr>
      | _ \<Rightarrow> \<lparr>data = None, error = Some ''PGRST116''\<rparr>)"

text \<open>
  Modelled from the spec: \<^verbatim>\<open>.update(p).eq(c, v)\<close> of the store client on a working store
  writes the payload over every matching row; no row is added or removed.
\<close>

definition update_rows :: "row \<Rightarrow> string \<Rightarrow> jsval \<Rightarrow> row list \<Rightarrow> row list" where
  "update_rows p c v rs = map (\<lambda>r. if eq_match c v r then overwrite r p else r) rs"

text \<open>
  Modelled from the spec: the identity key of the table (\<^verbatim>\<open>user_id\<close>) cannot be null, so
  a payload must bring one.
\<close>

definition has_key :: "row \<Rightarrow> bool" where
  "has_key p = (transmitted (user_id p) \<and> user_id p \<noteq> Null)"

text \<open>
  Modelled from the spec: \<^verbatim>\<open>.upsert(p, { onConflict: 'user_id' })\<close> of the store client
  on a working store. A payload whose key is stored already is written over that row;
  any other payload becomes a new row.
\<close>

definition upsert_rows :: "row \<Rightarrow> row list \<Rightarrow> row list" where
  "upsert_rows p rs =
     (if \<exists>r \<in> set rs. user_id r = user_id p
      then map (\<lambda>r. if user_id r = user_id p then overwrite r p else r) rs
      else rs @ [overwrite null_row p])"

text \<open>
  Modelled from the spec: what a working store does with a call, as the reply and the
  new table. An upsert without a key is refused with an error in the reply.
\<close>

definition store_perform :: "call \<Rightarrow> row list \<Rightarrow> reply \<times> row list" where
  "store_perform c rs =
     (case c of
        SelectSingle col v \<Rightarrow> (single (filter (eq_match col v) rs), rs)
      | Update p col v \<Rightarrow> (\<lparr>data = None, error = None\<rparr>, update_rows p col v rs)
      | Upsert p \<Rightarrow>
          (if has_key p then (\<lparr>data = None, error = None\<rparr>, upsert_rows p rs)
           else (\<lparr>data = None, error = Some ''23502''\<rparr>, rs))
      | RetrieveCustomer cid \<Rightarrow> (\<lparr>data = None, error = Some ''not a store call''\<rparr>, rs))"

text \<open>
  Modelled from the spec: one awaited call to the store client. The call is recorded in
  the trace whatever happens. A working store (\<open>Healthy\<close>) carries the call out. A store
  that fails either resolves to \<^verbatim>\<open>{ data: null, error }\<close> (\<open>Failing\<close>, the way the client
  reports a fault unless told otherwise) or makes the awaited call throw (\<open>Crashing\<close>); in
  both cases the table stays as it was.
\<close>

definition store_call :: "env \<Rightarrow> call \<Rightarrow> world \<Rightarrow> reply outcome \<times> world" where
  "store_call e c w =
     (let w1 = w\<lparr>trace := trace w @ [c]\<rparr> in
      case store_fault e of
        Healthy \<Rightarrow>
          (case store_perform c (table w) of (rep, rs) \<Rightarrow> (Returned rep, w1\<lparr>table := rs\<rparr>))
      | Failing msg \<Rightarrow> (Returned \<lparr>data = None, error = Some msg\<rparr>, w1)
      | Crashing msg \<Rightarrow> (Thrown msg, w1))"

subsection \<open>The payment provider client\<close>

text \<open>\<^verbatim>\<open>await stripe.customers.retrieve(id)\<close>: the call is recorded, the answer is the environment's.\<close>

definition retrieve :: "env \<Rightarrow> string \<Rightarrow> world \<Rightarrow> customer outcome \<times> world" where
  "retrieve e cid w = (customers_retrieve e cid, w\<lparr>trace := trace w @ [RetrieveCustomer cid]\<rparr>)"

section \<open>Endpoint 1: check subscription\<close>

text \<open>
  \<^verbatim>\<open>new Date(v)\<close> as a time value in milliseconds, \<open>None\<close> for an invalid date. A string
  is parsed, null is 0, undefined is invalid, a number is clipped to the range of dates,
  a function or an object without a date in its text is invalid.
\<close>

definition new_Date :: "env \<Rightarrow> jsval \<Rightarrow> int option" where
  "new_Date e v =
     (case v of
        Str s \<Rightarrow> Date_parse e s
      | Null \<Rightarrow> Some 0
      | Undefined \<Rightarrow> None
      | Bool b \<Rightarrow> Some (if b then 1 else 0)
      | Num n \<Rightarrow> (if \<bar>n\<bar> \<le> 8640000000000000 then Some n else None)
      | Function n \<Rightarrow> None
      | EmptyObject \<Rightarrow> None)"

text \<open>
  \<^verbatim>\<open>currentPeriodEnd < new Date()\<close>: a comparison with an invalid date (NaN) is false.
\<close>

definition isExpired :: "env \<Rightarrow> row \<Rightarrow> bool" where
  "isExpired e d =
     (case new_Date e (current_period_end d) of
        Some t \<Rightarrow> t < now e
      | None \<Rightarrow> False)"

definition isActive :: "row \<Rightarrow> bool" where
  "isActive d = (status d = Str ''active'')"

definition missing_parameter :: response where
  "missing_parameter =
     \<lparr> code = 400,
       body = Json [(''error'', Str ''Missing parameter''),
                    (''message'', Str ''Please provide either userId or email'')] \<rparr>"

definition no_subscription :: response where
  "no_subscription =
     \<lparr> code = 200,
       body = Json [(''hasSubscription'', Bool False),
                    (''subscriptionTier'', Str ''free''),
                    (''status'', Str ''inactive''),
                    (''message'', Str ''No active subscription found'')] \<rparr>"

definition subscription_response :: "env \<Rightarrow> row \<Rightarrow> response" where
  "subscription_response e d =
     \<lparr> code = 200,
       body = Json [(''hasSubscription'', Bool (isActive d \<and> \<not> isExpired e d)),
                    (''subscriptionTier'',
                       if isActive d \<and> \<not> isExpired e d then subscription_tier d else Str ''free''),
                    (''status'', status d),
                    (''userId'', user_id d),
                    (''email'', email d),
                    (''currentPeriodEnd'', current_period_end d),
                    (''stripeCustomerId'', stripe_customer_id d)] \<rparr>"

definition internal_error :: "string \<Rightarrow> response" where
  "internal_error msg =
     \<lparr> code = 500,
       body = Json [(''error'', Str ''Internal server error''), (''message'', Str msg)] \<rparr>"

text \<open>
  The handler of \<^verbatim>\<open>POST /api/check-subscription\<close>. The guard on the two identifiers
  comes first; the lookup filters on \<^verbatim>\<open>user_id\<close> when \<^verbatim>\<open>userId\<close> is truthy and on
  \<^verbatim>\<open>email\<close> otherwise; \<^verbatim>\<open>if (error || !data)\<close> gives the default answer; a throw
  anywhere is caught and answered with 500.
\<close>

definition key_column :: "request_body \<Rightarrow> string" where
  "key_column b = (if truthy (req_userId b) then ''user_id'' else ''email'')"

definition key_value :: "request_body \<Rightarrow> jsval" where
  "key_value b = (if truthy (req_userId b) then req_userId b else req_email b)"

definition check_subscription :: "env \<Rightarrow> request_body \<Rightarrow> world \<Rightarrow> response \<times> world" where
  "check_subscription e b w =
     (if \<not> truthy (req_userId b) \<and> \<not> truthy (req_email b) then (missing_parameter, w)
      else
        case store_call e (SelectSingle (key_column b) (key_value b)) w of
          (Thrown msg, w') \<Rightarrow> (internal_error msg, w')
        | (Returned rep, w') \<Rightarrow>
             (case (error rep, data rep) of
                (None, Some d) \<Rightarrow> (subscription_response e d, w')
              | _ \<Rightarrow> (no_subscription, w')))"

text \<open>Reading a property of a JSON response body.\<close>

definition field :: "response \<Rightarrow> string \<Rightarrow> jsval" where
  "field r k =
     (case body r of
        Json kvs \<Rightarrow> (case map_of kvs k of Some v \<Rightarrow> v | None \<Rightarrow> Undefined)
      | Text t \<Rightarrow> Undefined)"


section \<open>Endpoint 2: the webhook and its helper functions\<close>

text \<open>
  \<^verbatim>\<open>TIER_MAPPING\<close> is an object literal with three computed keys. An unset variable gives
  the key \<^verbatim>\<open>"undefined"\<close>, and of two equal keys the later entry stays.
\<close>

definition env_key :: "string option \<Rightarrow> string" where
  "env_key v = (case v of Some s \<Rightarrow> s | None \<Rightarrow> ''undefined'')"

definition TIER_MAPPING :: "config \<Rightarrow> (string \<rightharpoonup> string)" where
  "TIER_MAPPING cfg =
     [env_key (PRICE_ID_BASIC cfg) \<mapsto> ''basic'',
      env_key (PRICE_ID_PRO cfg) \<mapsto> ''pro'',
      env_key (PRICE_ID_PREMIUM cfg) \<mapsto> ''premium'']"

text \<open>
  \<^verbatim>\<open>obj[k]\<close> on an object literal finds the object's own properties first and then the
  members it inherits from \<^verbatim>\<open>Object.prototype\<close>; anything else is undefined.
\<close>

definition Object_prototype :: "string list" where
  "Object_prototype =
     [''constructor'', ''hasOwnProperty'', ''isPrototypeOf'', ''propertyIsEnumerable'',
      ''toLocaleString'', ''toString'', ''valueOf'', ''__defineGetter__'',
      ''__defineSetter__'', ''__lookupGetter__'', ''__lookupSetter__'', ''__proto__'']"

definition get_property :: "(string \<rightharpoonup> string) \<Rightarrow> string \<Rightarrow> jsval" where
  "get_property obj k =
     (case obj k of
        Some v \<Rightarrow> Str v
      | None \<Rightarrow>
          if k = ''__proto__'' then EmptyObject
          else if k \<in> set Object_prototype then Function k
          else Undefined)"

text \<open>\<^verbatim>\<open>k in obj\<close>: the object has a property of that name, its own or inherited.\<close>

definition has_property :: "(string \<rightharpoonup> string) \<Rightarrow> string \<Rightarrow> bool" where
  "has_property obj k = (obj k \<noteq> None \<or> k \<in> set Object_prototype)"

text \<open>\<^verbatim>\<open>const tier = TIER_MAPPING[priceId] || 'unknown'\<close>\<close>

definition resolve_tier :: "config \<Rightarrow> string \<Rightarrow> jsval" where
  "resolve_tier cfg priceId =
     (let v = get_property (TIER_MAPPING cfg) priceId
      in if truthy v then v else Str ''unknown'')"

text \<open>
  \<^verbatim>\<open>new Date(subscription.current_period_end * 1000).toISOString()\<close>: an absent property
  makes the product NaN, and \<^verbatim>\<open>toISOString\<close> of an invalid date throws a RangeError
  (\<open>None\<close> here), as it does for a time value outside the range of dates.
\<close>

definition period_end_iso :: "env \<Rightarrow> stripe_object \<Rightarrow> string option" where
  "period_end_iso e s =
     (case obj_current_period_end s of
        None \<Rightarrow> None
      | Some n \<Rightarrow>
          if \<bar>n * 1000\<bar> \<le> 8640000000000000 then Some (toISOString e (n * 1000)) else None)"

text \<open>
  \<^verbatim>\<open>try { ... } catch (error) { console.error(...) }\<close> around the whole body of a helper:
  what the body throws is swallowed, what it did before stays done.
\<close>

definition swallow :: "unit outcome \<times> world \<Rightarrow> unit outcome \<times> world" where
  "swallow r = (case r of (Thrown msg, w) \<Rightarrow> (Returned (), w) | (Returned u, w) \<Rightarrow> (Returned u, w))"

text \<open>
  The body of \<^verbatim>\<open>handleSubscriptionUpdate\<close>: the customer lookup, then the first line
  item (reading \<^verbatim>\<open>.price\<close> of a missing item is a TypeError), then the record, then the
  upsert. An \<open>error\<close> in the store's reply is logged and nothing else.
\<close>

definition handleSubscriptionUpdate_try ::
  "config \<Rightarrow> env \<Rightarrow> stripe_object \<Rightarrow> world \<Rightarrow> unit outcome \<times> world" where
  "handleSubscriptionUpdate_try cfg e subscription w =
     (case retrieve e (obj_customer subscription) w of
        (Thrown msg, w1) \<Rightarrow> (Thrown msg, w1)
      | (Returned customer, w1) \<Rightarrow>
          (case obj_items subscription of
             [] \<Rightarrow> (Thrown ''TypeError'', w1)
           | priceId # rest \<Rightarrow>
               let tier = resolve_tier cfg priceId
               in (case period_end_iso e subscription of
                     None \<Rightarrow> (Thrown ''RangeError'', w1)
                   | Some isoString \<Rightarrow>
                       let subscriptionData =
                             \<lparr> user_id = cust_email customer,
                               email = cust_email customer,
                               stripe_customer_id = Str (obj_customer subscription),
                               subscription_tier = tier,
                               status = Str (obj_status subscription),
                               stripe_subscription_id = Str (obj_id subscription),
                               current_period_end = Str isoString,
                               updated_at = Str (toISOString e (now e)) \<rparr>
                       in (case store_call e (Upsert subscriptionData) w1 of
                             (Thrown msg, w2) \<Rightarrow> (Thrown msg, w2)
                           | (Returned rep, w2) \<Rightarrow> (Returned (), w2)))))"

definition handleSubscriptionUpdate ::
  "config \<Rightarrow> env \<Rightarrow> stripe_object \<Rightarrow> world \<Rightarrow> unit outcome \<times> world" where
  "handleSubscriptionUpdate cfg e subscription w =
     swallow (handleSubscriptionUpdate_try cfg e subscription w)"

text \<open>A payload with no column at all; an update sets the columns it names.\<close>

definition no_columns :: row where
  "no_columns =
     \<lparr> user_id = Undefined, email = Undefined, stripe_customer_id = Undefined,
       subscription_tier = Undefined, status = Undefined,
       stripe_subscription_id = Undefined, current_period_end = Undefined,
       updated_at = Undefined \<rparr>"

text \<open>
  The body of \<^verbatim>\<open>handleSubscriptionDeleted\<close>: the customer lookup first (its result is
  only logged), then the update of the rows of that customer.
\<close>

definition handleSubscriptionDeleted_try ::
  "env \<Rightarrow> stripe_object \<Rightarrow> world \<Rightarrow> unit outcome \<times> world" where
  "handleSubscriptionDeleted_try e subscription w =
     (case retrieve e (obj_customer subscription) w of
        (Thrown msg, w1) \<Rightarrow> (Thrown msg, w1)
      | (Returned customer, w1) \<Rightarrow>
          (case store_call e
                  (Update (no_columns\<lparr> status := Str ''canceled'',
                                       subscription_tier := Str ''free'',
                                       updated_at := Str (toISOString e (now e)) \<rparr>)
                          ''stripe_customer_id'' (Str (obj_customer subscription))) w1 of
             (Thrown msg, w2) \<Rightarrow> (Thrown msg, w2)
           | (Returned rep, w2) \<Rightarrow> (Returned (), w2)))"

definition handleSubscriptionDeleted ::
  "env \<Rightarrow> stripe_object \<Rightarrow> world \<Rightarrow> unit outcome \<times> world" where
  "handleSubscriptionDeleted e subscription w =
     swallow (handleSubscriptionDeleted_try e subscription w)"

text \<open>\<^verbatim>\<open>handlePaymentSucceeded\<close> logs the customer and does nothing else.\<close>

definition handlePaymentSucceeded ::
  "env \<Rightarrow> stripe_object \<Rightarrow> world \<Rightarrow> unit outcome \<times> world" where
  "handlePaymentSucceeded e invoice w = (Returned (), w)"

text \<open>The body of \<^verbatim>\<open>handlePaymentFailed\<close>: one update, of the status and the write time.\<close>

definition handlePaymentFailed_try ::
  "env \<Rightarrow> stripe_object \<Rightarrow> world \<Rightarrow> unit outcome \<times> world" where
  "handlePaymentFailed_try e invoice w =
     (case store_call e
             (Update (no_columns\<lparr> status := Str ''past_due'',
                                  updated_at := Str (toISOString e (now e)) \<rparr>)
                     ''stripe_customer_id'' (Str (obj_customer invoice))) w of
        (Thrown msg, w1) \<Rightarrow> (Thrown msg, w1)
      | (Returned rep, w1) \<Rightarrow> (Returned (), w1))"

definition handlePaymentFailed ::
  "env \<Rightarrow> stripe_object \<Rightarrow> world \<Rightarrow> unit outcome \<times> world" where
  "handlePaymentFailed e invoice w = swallow (handlePaymentFailed_try e invoice w)"

text \<open>The \<^verbatim>\<open>switch (event.type)\<close> of the webhook route.\<close>

definition dispatch :: "config \<Rightarrow> env \<Rightarrow> event \<Rightarrow> world \<Rightarrow> unit outcome \<times> world" where
  "dispatch cfg e ev w =
     (if ev_type ev = ''customer.subscription.created''
         \<or> ev_type ev = ''customer.subscription.updated''
      then handleSubscriptionUpdate cfg e (ev_object ev) w
      else if ev_type ev = ''customer.subscription.deleted''
      then handleSubscriptionDeleted e (ev_object ev) w
      else if ev_type ev = ''invoice.payment_succeeded''
      then handlePaymentSucceeded e (ev_object ev) w
      else if ev_type ev = ''invoice.payment_failed''
      then handlePaymentFailed e (ev_object ev) w
      else (Returned (), w))"

definition webhook_error :: "string \<Rightarrow> response" where
  "webhook_error msg = \<lparr> code = 400, body = Text (''Webhook Error: '' @ msg) \<rparr>"

definition received :: response where
  "received = \<lparr> code = 200, body = Json [(''received'', Bool True)] \<rparr>"

definition processing_failed :: response where
  "processing_failed =
     \<lparr> code = 500, body = Json [(''error'', Str ''Webhook processing failed'')] \<rparr>"

text \<open>
  The handler of \<^verbatim>\<open>POST /webhook/stripe\<close>: the signature check, whose failure answers
  400 and returns; then the switch inside its own \<^verbatim>\<open>try\<close>, answering
  \<^verbatim>\<open>{ received: true }\<close> when the branch returns and 500 when it throws.
\<close>

definition webhook_stripe ::
  "config \<Rightarrow> env \<Rightarrow> webhook_request \<Rightarrow> world \<Rightarrow> response \<times> world" where
  "webhook_stripe cfg e req w =
     (case constructEvent e (raw_body req) (stripe_signature req) of
        Thrown msg \<Rightarrow> (webhook_error msg, w)
      | Returned ev \<Rightarrow>
          (case dispatch cfg e ev w of
             (Returned u, w') \<Rightarrow> (received, w')
           | (Thrown msg, w') \<Rightarrow> (processing_failed, w')))"

section \<open>Vocabulary of the properties\<close>

text \<open>The calls made between two states of the world, and which of them go to the store.\<close>

definition new_calls :: "world \<Rightarrow> world \<Rightarrow> call list" where
  "new_calls w w' = drop (length (trace w)) (trace w')"

fun is_store_call :: "call \<Rightarrow> bool" where
  "is_store_call (RetrieveCustomer cid) = False"
| "is_store_call c = True"

fun threw :: "'a outcome \<Rightarrow> bool" where
  "threw (Thrown msg) = True"
| "threw (Returned x) = False"

text \<open>
  The wording "current_period_end is strictly in the future at evaluation time", to
  compare with what \<open>isExpired\<close> computes.
\<close>

definition strictly_future :: "env \<Rightarrow> row \<Rightarrow> bool" where
  "strictly_future e d =
     (case new_Date e (current_period_end d) of
        Some t \<Rightarrow> now e < t
      | None \<Rightarrow> False)"

section \<open>Sample inputs\<close>

text \<open>
  A small deployment on which the properties below are run. It is 2030-01-01T00:00:00Z
  (1893456000000 ms), the table holds two customers whose paid period ends a year later
  (1924992000000 ms), and the two date functions agree with the runtime on these two
  instants. The provider accepts the signature \<^verbatim>\<open>t=1,v1=good\<close>; the event it then returns
  has the raw body as its type and \<open>demo_subscription\<close> as its object.
\<close>

definition demo_parse :: "string \<Rightarrow> int option" where
  "demo_parse s =
     (if s = ''2030-01-01T00:00:00.000Z'' then Some 1893456000000
      else if s = ''2031-01-01T00:00:00.000Z'' then Some 1924992000000
      else None)"

definition demo_iso :: "int \<Rightarrow> string" where
  "demo_iso t =
     (if t = 1893456000000 then ''2030-01-01T00:00:00.000Z''
      else if t = 1924992000000 then ''2031-01-01T00:00:00.000Z''
      else [])"

definition demo_subscription :: stripe_object where
  "demo_subscription =
     \<lparr> obj_id = ''sub_1'', obj_customer = ''cus_1'', obj_status = ''active'',
       obj_items = [''price_premium''], obj_current_period_end = Some 1924992000 \<rparr>"

definition demo_env :: env where
  "demo_env =
     \<lparr> constructEvent =
         (\<lambda>raw sig. if sig = Some ''t=1,v1=good''
                    then Returned \<lparr> ev_type = raw, ev_object = demo_subscription \<rparr>
                    else Thrown ''No signatures found matching the expected signature for payload''),
       customers_retrieve =
         (\<lambda>cid. if cid = ''cus_1''
                then Returned \<lparr> cust_id = cid, cust_email = Str ''ann@example.com'' \<rparr>
                else Thrown ''No such customer''),
       store_fault = Healthy,
       now = 1893456000000,
       Date_parse = demo_parse,
       toISOString = demo_iso \<rparr>"

definition demo_config :: config where
  "demo_config =
     \<lparr> PRICE_ID_BASIC = Some ''price_basic'', PRICE_ID_PRO = Some ''price_pro'',
       PRICE_ID_PREMIUM = Some ''price_premium'' \<rparr>"

definition demo_row :: row where
  "demo_row =
     \<lparr> user_id = Str ''ann@example.com'', email = Str ''ann@example.com'',
       stripe_customer_id = Str ''cus_1'', subscription_tier = Str ''premium'',
       status = Str ''active'', stripe_subscription_id = Str ''sub_1'',
       current_period_end = Str ''2031-01-01T00:00:00.000Z'',
       updated_at = Str ''2030-01-01T00:00:00.000Z'' \<rparr>"

definition other_row :: row where
  "other_row =
     \<lparr> user_id = Str ''bob@example.com'', email = Str ''bob@example.com'',
       stripe_customer_id = Str ''cus_2'', subscription_tier = Str ''basic'',
       status = Str ''active'', stripe_subscription_id = Str ''sub_2'',
       current_period_end = Str ''2031-01-01T00:00:00.000Z'',
       updated_at = Str ''2030-01-01T00:00:00.000Z'' \<rparr>"

definition demo_world :: world where
  "demo_world = \<lparr> table = [other_row, demo_row], trace = [] \<rparr>"

definition by_email :: "string \<Rightarrow> request_body" where
  "by_email a = \<lparr> req_userId = Undefined, req_email = Str a \<rparr>"

text \<open>A record whose paid period ends at the very instant of the request.\<close>

definition boundary_row :: row where
  "boundary_row = demo_row\<lparr> current_period_end := Str ''2030-01-01T00:00:00.000Z'' \<rparr>"

definition boundary_world :: world where
  "boundary_world = \<lparr> table = [other_row, boundary_row], trace = [] \<rparr>"

text \<open>The store reports a fault in its reply; both clients are down; the provider alone is down.\<close>

definition failing_env :: env where
  "failing_env = demo_env\<lparr> store_fault := Failing ''fetch failed'' \<rparr>"

definition outage_env :: env where
  "outage_env =
     demo_env\<lparr> customers_retrieve :=
                 (\<lambda>cid. Thrown ''An error occurred with our connection to Stripe''),
               store_fault := Crashing ''fetch failed'' \<rparr>"

definition lookup_down_env :: env where
  "lookup_down_env =
     demo_env\<lparr> customers_retrieve :=
                 (\<lambda>cid. Thrown ''An error occurred with our connection to Stripe'') \<rparr>"

definition signed :: "string \<Rightarrow> webhook_request" where
  "signed t = \<lparr> raw_body = t, stripe_signature = Some ''t=1,v1=good'' \<rparr>"

definition unsigned :: "string \<Rightarrow> webhook_request" where
  "unsigned t = \<lparr> raw_body = t, stripe_signature = None \<rparr>"

text \<open>
  Two providers that accept every request: one whose subscription has the price
  identifier \<^verbatim>\<open>constructor\<close>, which no variable names, and one whose subscription has no
  line item.
\<close>

definition inherited_env :: env where
  "inherited_env =
     demo_env\<lparr> constructEvent :=
                 (\<lambda>raw sig. Returned \<lparr> ev_type = raw,
                                        ev_object = demo_subscription\<lparr> obj_items := [''constructor''] \<rparr> \<rparr>) \<rparr>"

definition empty_env :: env where
  "empty_env =
     demo_env\<lparr> constructEvent :=
                 (\<lambda>raw sig. Returned \<lparr> ev_type = raw,
                                        ev_object = demo_subscription\<lparr> obj_items := [] \<rparr> \<rparr>) \<rparr>"

section \<open>Lemmas about the store client and the helpers\<close>

lemma store_call_Healthy:
  "store_fault e = Healthy \<Longrightarrow>
   store_call e c w =
     (Returned (fst (store_perform c (table w))),
      \<lparr> table = snd (store_perform c (table w)), trace = trace w @ [c] \<rparr>)"
  by (simp add: store_call_def Let_def split: prod.splits)

lemma store_call_Failing:
  "store_fault e = Failing msg \<Longrightarrow>
   store_call e c w =
     (Returned \<lparr>data = None, error = Some msg\<rparr>, \<lparr> table = table w, trace = trace w @ [c] \<rparr>)"
  by (simp add: store_call_def Let_def)

lemma store_call_Crashing:
  "store_fault e = Crashing msg \<Longrightarrow>
   store_call e c w = (Thrown msg, \<lparr> table = table w, trace = trace w @ [c] \<rparr>)"
  by (simp add: store_call_def Let_def)

lemma check_subscription_found:
  assumes "truthy (req_userId b) \<or> truthy (req_email b)"
    and "store_fault e = Healthy"
    and "filter (eq_match (key_column b) (key_value b)) (table w) = [d]"
  shows "check_subscription e b w =
           (subscription_response e d,
            \<lparr> table = table w,
              trace = trace w @ [SelectSingle (key_column b) (key_value b)] \<rparr>)"
  using assms
  by (auto simp: check_subscription_def store_call_Healthy store_perform_def single_def)

lemma check_subscription_store_throws:
  assumes "truthy (req_userId b) \<or> truthy (req_email b)"
    and "store_fault e = Crashing msg"
  shows "fst (check_subscription e b w) = internal_error msg"
  using assms by (auto simp: check_subscription_def store_call_Crashing)

lemma isExpired_iff:
  "\<not> isExpired e d \<longleftrightarrow> (case new_Date e (current_period_end d) of Some t \<Rightarrow> now e \<le> t | None \<Rightarrow> True)"
  by (auto simp: isExpired_def split: option.splits)

lemma retrieve_eq:
  "retrieve e cid w =
     (customers_retrieve e cid, \<lparr> table = table w, trace = trace w @ [RetrieveCustomer cid] \<rparr>)"
  by (simp add: retrieve_def)

lemma swallow_fst: "fst (swallow r) = Returned ()"
  by (cases r) (simp add: swallow_def split: outcome.splits)

lemma swallow_snd: "snd (swallow r) = snd r"
  by (cases r) (simp add: swallow_def split: outcome.splits)

lemma dispatch_returns: "fst (dispatch cfg e ev w) = Returned ()"
  by (simp add: dispatch_def handleSubscriptionUpdate_def handleSubscriptionDeleted_def
                handlePaymentFailed_def handlePaymentSucceeded_def swallow_fst)

lemma webhook_verified:
  assumes "constructEvent e (raw_body req) (stripe_signature req) = Returned ev"
  shows "webhook_stripe cfg e req w = (received, snd (dispatch cfg e ev w))"
proof -
  obtain u w' where d: "dispatch cfg e ev w = (u, w')"
    by (cases "dispatch cfg e ev w")
  with dispatch_returns [of cfg e ev w] have "u = Returned ()" by simp
  with d assms show ?thesis by (simp add: webhook_stripe_def)
qed

lemma store_call_world:
  "snd (store_call e c w) =
     \<lparr> table = (if store_fault e = Healthy then snd (store_perform c (table w)) else table w),
       trace = trace w @ [c] \<rparr>"
  by (simp add: store_call_def Let_def split: fault.splits prod.splits)

lemma update_try_world:
  "snd (handleSubscriptionUpdate_try cfg e s w) =
     (case customers_retrieve e (obj_customer s) of
        Thrown msg \<Rightarrow> \<lparr> table = table w, trace = trace w @ [RetrieveCustomer (obj_customer s)] \<rparr>
      | Returned c \<Rightarrow>
          (case (obj_items s, period_end_iso e s) of
             (priceId # rest, Some isoString) \<Rightarrow>
               snd (store_call e
                      (Upsert \<lparr> user_id = cust_email c, email = cust_email c,
                                stripe_customer_id = Str (obj_customer s),
                                subscription_tier = resolve_tier cfg priceId,
                                status = Str (obj_status s),
                                stripe_subscription_id = Str (obj_id s),
                                current_period_end = Str isoString,
                                updated_at = Str (toISOString e (now e)) \<rparr>)
                      \<lparr> table = table w, trace = trace w @ [RetrieveCustomer (obj_customer s)] \<rparr>)
           | _ \<Rightarrow> \<lparr> table = table w, trace = trace w @ [RetrieveCustomer (obj_customer s)] \<rparr>))"
  by (simp add: handleSubscriptionUpdate_try_def retrieve_eq Let_def
           split: outcome.splits list.splits option.splits prod.splits)

lemma deleted_try_world:
  "snd (handleSubscriptionDeleted_try e s w) =
     (case customers_retrieve e (obj_customer s) of
        Thrown msg \<Rightarrow> \<lparr> table = table w, trace = trace w @ [RetrieveCustomer (obj_customer s)] \<rparr>
      | Returned c \<Rightarrow>
          snd (store_call e
                 (Update (no_columns\<lparr> status := Str ''canceled'',
                                      subscription_tier := Str ''free'',
                                      updated_at := Str (toISOString e (now e)) \<rparr>)
                         ''stripe_customer_id'' (Str (obj_customer s)))
                 \<lparr> table = table w, trace = trace w @ [RetrieveCustomer (obj_customer s)] \<rparr>))"
  by (simp add: handleSubscriptionDeleted_try_def retrieve_eq
           split: outcome.splits prod.splits)

lemma failed_try_world:
  "snd (handlePaymentFailed_try e s w) =
     snd (store_call e
            (Update (no_columns\<lparr> status := Str ''past_due'',
                                 updated_at := Str (toISOString e (now e)) \<rparr>)
                    ''stripe_customer_id'' (Str (obj_customer s))) w)"
  by (simp add: handlePaymentFailed_try_def split: outcome.splits prod.splits)

lemma new_calls_append: "trace w' = trace w @ cs \<Longrightarrow> new_calls w w' = cs"
  by (simp add: new_calls_def)

lemma dispatch_trace:
  "\<exists>cs. trace (snd (dispatch cfg e ev w)) = trace w @ cs
        \<and> length (filter is_store_call cs) \<le> 1
        \<and> length (filter (\<lambda>c. \<not> is_store_call c) cs) \<le> 1"
  by (simp add: dispatch_def handleSubscriptionUpdate_def handleSubscriptionDeleted_def
                handlePaymentFailed_def handlePaymentSucceeded_def swallow_snd
                update_try_world deleted_try_world failed_try_world store_call_world
           split: outcome.splits list.splits option.splits)

lemma overwrite_canceled:
  "overwrite r (no_columns\<lparr> status := Str a, subscription_tier := Str b, updated_at := Str c \<rparr>)
     = r\<lparr> status := Str a, subscription_tier := Str b, updated_at := Str c \<rparr>"
  by (simp add: overwrite_def pick_def no_columns_def)

lemma overwrite_past_due:
  "overwrite r (no_columns\<lparr> status := Str a, updated_at := Str c \<rparr>)
     = r\<lparr> status := Str a, updated_at := Str c \<rparr>"
  by (simp add: overwrite_def pick_def no_columns_def)

lemma update_rows_length: "length (update_rows p c v rs) = length rs"
  by (simp add: update_rows_def)

lemma update_rows_nth:
  "i < length rs \<Longrightarrow>
   update_rows p c v rs ! i = (if column c (rs ! i) = v then overwrite (rs ! i) p else rs ! i)"
  by (simp add: update_rows_def eq_match_def)

lemma store_perform_update:
  "store_perform (Update p c v) rs = (\<lparr>data = None, error = None\<rparr>, update_rows p c v rs)"
  by (simp add: store_perform_def)

lemma column_stripe_customer_id: "column ''stripe_customer_id'' r = stripe_customer_id r"
  by (simp add: column_def)

lemma dispatch_deleted:
  "ev_type ev = ''customer.subscription.deleted'' \<Longrightarrow>
   snd (dispatch cfg e ev w) = snd (handleSubscriptionDeleted_try e (ev_object ev) w)"
  by (simp add: dispatch_def handleSubscriptionDeleted_def swallow_snd)

lemma dispatch_payment_failed:
  "ev_type ev = ''invoice.payment_failed'' \<Longrightarrow>
   snd (dispatch cfg e ev w) = snd (handlePaymentFailed_try e (ev_object ev) w)"
  by (simp add: dispatch_def handlePaymentFailed_def swallow_snd)

lemma dispatch_update:
  "ev_type ev = ''customer.subscription.created'' \<or> ev_type ev = ''customer.subscription.updated'' \<Longrightarrow>
   snd (dispatch cfg e ev w) = snd (handleSubscriptionUpdate_try cfg e (ev_object ev) w)"
  by (simp add: dispatch_def handleSubscriptionUpdate_def swallow_snd)

lemma TIER_MAPPING_values:
  "TIER_MAPPING cfg k = Some t \<Longrightarrow> t = ''basic'' \<or> t = ''pro'' \<or> t = ''premium''"
  by (auto simp: TIER_MAPPING_def split: if_splits)

lemma resolve_tier_own:
  "TIER_MAPPING cfg k = Some t \<Longrightarrow> resolve_tier cfg k = Str t"
  using TIER_MAPPING_values [of cfg k t]
  by (auto simp: resolve_tier_def get_property_def)

lemma resolve_tier_absent:
  "\<not> has_property (TIER_MAPPING cfg) k \<Longrightarrow> resolve_tier cfg k = Str ''unknown''"
  by (auto simp: resolve_tier_def get_property_def has_property_def Object_prototype_def)

lemma demo_verified:
  "constructEvent demo_env (raw_body (signed t)) (stripe_signature (signed t))
     = Returned \<lparr> ev_type = t, ev_object = demo_subscription \<rparr>"
  by (simp add: demo_env_def signed_def)

section \<open>Properties of the query endpoint\<close>

text \<open>
  C8. A request whose body has neither \<^verbatim>\<open>userId\<close> nor \<^verbatim>\<open>email\<close> is answered with 400 and
  the missing-parameter error, and the store is not accessed: the world comes back as it
  was, with no call added to the trace and the table untouched, whatever the environment.
\<close>

theorem check_subscription_missing_parameter:
  assumes "req_userId b = Undefined" and "req_email b = Undefined"
  shows "check_subscription e b w = (missing_parameter, w)
       \<and> code missing_parameter = 400
       \<and> field missing_parameter ''error'' = Str ''Missing parameter''"
  using assms by (simp add: check_subscription_def missing_parameter_def field_def)

theorem check_subscription_missing_parameter_witness:
  "check_subscription demo_env \<lparr> req_userId = Undefined, req_email = Undefined \<rparr> demo_world
     = (missing_parameter, demo_world)
   \<and> code missing_parameter = 400
   \<and> field missing_parameter ''error'' = Str ''Missing parameter''"
  using check_subscription_missing_parameter
          [of "\<lparr> req_userId = Undefined, req_email = Undefined \<rparr>" demo_env demo_world]
  by simp

text \<open>
  C7. When the lookup of a request finds no matching record (the store works and no row
  has the requested key), the answer is 200 with \<^verbatim>\<open>hasSubscription: false\<close> and
  \<^verbatim>\<open>subscriptionTier: "free"\<close>: the default answer, not an error.
\<close>

theorem check_subscription_no_record:
  assumes "truthy (req_userId b) \<or> truthy (req_email b)"
    and "store_fault e = Healthy"
    and "filter (eq_match (key_column b) (key_value b)) (table w) = []"
  shows "fst (check_subscription e b w) = no_subscription
       \<and> code no_subscription = 200
       \<and> field no_subscription ''hasSubscription'' = Bool False
       \<and> field no_subscription ''subscriptionTier'' = Str ''free''"
  using assms
  by (auto simp: check_subscription_def store_call_Healthy store_perform_def single_def
                 no_subscription_def field_def)

theorem check_subscription_no_record_witness:
  "fst (check_subscription demo_env (by_email ''zed@example.com'') demo_world) = no_subscription
   \<and> code no_subscription = 200
   \<and> field no_subscription ''hasSubscription'' = Bool False
   \<and> field no_subscription ''subscriptionTier'' = Str ''free''"
proof -
  have 1: "truthy (req_userId (by_email ''zed@example.com''))
           \<or> truthy (req_email (by_email ''zed@example.com''))"
    by (simp add: by_email_def)
  have 2: "store_fault demo_env = Healthy"
    by (simp add: demo_env_def)
  have 3: "filter (eq_match (key_column (by_email ''zed@example.com''))
                            (key_value (by_email ''zed@example.com''))) (table demo_world) = []"
    by (simp add: by_email_def key_column_def key_value_def demo_world_def eq_match_def
                  column_def other_row_def demo_row_def)
  show ?thesis using check_subscription_no_record [OF 1 2 3] by simp
qed

text \<open>
  C1, as amended. When the request matches a stored record \<open>d\<close>, \<^verbatim>\<open>hasSubscription\<close> is
  true if and only if the record's status is \<^verbatim>\<open>"active"\<close> and its \<^verbatim>\<open>current_period_end\<close>
  is not earlier than the instant of evaluation: a period that ends at that very instant,
  or a value that is no valid date, does not count as expired. When this holds the
  returned tier is the stored tier, and otherwise it is \<^verbatim>\<open>"free"\<close> whatever tier is stored.
\<close>

theorem check_subscription_active_not_expired:
  assumes "truthy (req_userId b) \<or> truthy (req_email b)"
    and "store_fault e = Healthy"
    and "filter (eq_match (key_column b) (key_value b)) (table w) = [d]"
  shows "field (fst (check_subscription e b w)) ''hasSubscription''
           = Bool (status d = Str ''active''
                   \<and> (case new_Date e (current_period_end d) of
                         Some t \<Rightarrow> now e \<le> t
                       | None \<Rightarrow> True))
       \<and> field (fst (check_subscription e b w)) ''subscriptionTier''
           = (if status d = Str ''active''
                 \<and> (case new_Date e (current_period_end d) of
                       Some t \<Rightarrow> now e \<le> t
                     | None \<Rightarrow> True)
              then subscription_tier d else Str ''free'')"
  using check_subscription_found [OF assms] isExpired_iff [of e d]
  by (simp add: subscription_response_def field_def isActive_def)

theorem check_subscription_active_not_expired_witness:
  "field (fst (check_subscription demo_env (by_email ''ann@example.com'') demo_world))
     ''hasSubscription'' = Bool True
   \<and> field (fst (check_subscription demo_env (by_email ''ann@example.com'') demo_world))
       ''subscriptionTier'' = Str ''premium''"
proof -
  have 1: "truthy (req_userId (by_email ''ann@example.com''))
           \<or> truthy (req_email (by_email ''ann@example.com''))"
    by (simp add: by_email_def)
  have 2: "store_fault demo_env = Healthy"
    by (simp add: demo_env_def)
  have 3: "filter (eq_match (key_column (by_email ''ann@example.com''))
                            (key_value (by_email ''ann@example.com''))) (table demo_world)
             = [demo_row]"
    by (simp add: by_email_def key_column_def key_value_def demo_world_def eq_match_def
                  column_def other_row_def demo_row_def)
  have 4: "new_Date demo_env (current_period_end demo_row) = Some 1924992000000"
    by (simp add: new_Date_def demo_row_def demo_env_def demo_parse_def)
  have 5: "now demo_env = 1893456000000" "status demo_row = Str ''active''"
          "subscription_tier demo_row = Str ''premium''"
    by (simp_all add: demo_env_def demo_row_def)
  show ?thesis
    using check_subscription_active_not_expired [OF 1 2 3] by (simp add: 4 5)
qed

text \<open>
  C1 as stated asks for a period end strictly in the future. For a record that is active
  and whose period ends exactly at the instant of the request, the period end is not
  strictly in the future and \<^verbatim>\<open>hasSubscription\<close> is true all the same.
\<close>

theorem hasSubscription_at_period_end:
  "filter (eq_match (key_column (by_email ''ann@example.com''))
                    (key_value (by_email ''ann@example.com''))) (table boundary_world)
     = [boundary_row]
   \<and> status boundary_row = Str ''active''
   \<and> \<not> strictly_future demo_env boundary_row
   \<and> field (fst (check_subscription demo_env (by_email ''ann@example.com'') boundary_world))
        ''hasSubscription'' = Bool True"
  by (simp add: by_email_def key_column_def key_value_def boundary_world_def boundary_row_def
        eq_match_def column_def other_row_def demo_row_def strictly_future_def new_Date_def
        demo_env_def demo_parse_def check_subscription_def store_call_def store_perform_def
        single_def subscription_response_def field_def isActive_def isExpired_def)

text \<open>
  C2. The claim asks for 500 whenever the store lookup faults. The sample request asks for
  a customer whose stored record is active, while the store is unreachable and the client
  reports \<^verbatim>\<open>fetch failed\<close> in the \<^verbatim>\<open>error\<close> of its reply. The handler does not answer 500:
  the guard \<^verbatim>\<open>if (error || !data)\<close>, which its comment describes as "User not found or no
  subscription", answers 200 with the default body and the message
  \<^verbatim>\<open>No active subscription found\<close>.
\<close>

theorem store_error_reply_answers_200:
  "store_fault failing_env = Failing ''fetch failed''
   \<and> filter (eq_match (key_column (by_email ''ann@example.com''))
                      (key_value (by_email ''ann@example.com''))) (table demo_world)
       = [demo_row]
   \<and> status demo_row = Str ''active''
   \<and> fst (check_subscription failing_env (by_email ''ann@example.com'') demo_world)
       = no_subscription
   \<and> code no_subscription = 200
   \<and> field no_subscription ''hasSubscription'' = Bool False
   \<and> field no_subscription ''message'' = Str ''No active subscription found''"
  by (simp add: failing_env_def by_email_def check_subscription_def store_call_def
                key_column_def key_value_def no_subscription_def field_def demo_world_def
                eq_match_def column_def other_row_def demo_row_def)

section \<open>Properties of the webhook endpoint\<close>

text \<open>
  C6. When the signature verification of a webhook request fails with a message, the
  endpoint answers 400 with the text \<^verbatim>\<open>Webhook Error: <message>\<close>, and no branch runs:
  the world comes back as it was, with no call made and no row changed.
\<close>

theorem webhook_invalid_signature:
  assumes "constructEvent e (raw_body req) (stripe_signature req) = Thrown msg"
  shows "webhook_stripe cfg e req w = (webhook_error msg, w)
       \<and> code (webhook_error msg) = 400
       \<and> body (webhook_error msg) = Text (''Webhook Error: '' @ msg)"
  using assms by (simp add: webhook_stripe_def webhook_error_def)

theorem webhook_invalid_signature_witness:
  "webhook_stripe demo_config demo_env (unsigned ''customer.subscription.deleted'') demo_world
     = (webhook_error ''No signatures found matching the expected signature for payload'',
        demo_world)
   \<and> code (webhook_error ''No signatures found matching the expected signature for payload'')
       = 400
   \<and> body (webhook_error ''No signatures found matching the expected signature for payload'')
       = Text ''Webhook Error: No signatures found matching the expected signature for payload''"
proof -
  have 1: "constructEvent demo_env (raw_body (unsigned ''customer.subscription.deleted''))
             (stripe_signature (unsigned ''customer.subscription.deleted''))
           = Thrown ''No signatures found matching the expected signature for payload''"
    by (simp add: demo_env_def unsigned_def)
  show ?thesis
    using webhook_invalid_signature [OF 1, of demo_config demo_world] by simp
qed

text \<open>
  C3. For an event whose signature verified, each helper with a \<^verbatim>\<open>try\<close> returns normally
  whatever the customer lookup and the store call do, so a failure of either is caught
  inside the branch; the answer is 200 with \<^verbatim>\<open>{ received: true }\<close>, the same as on success;
  and nothing is retried: the request makes at most one call to the store and at most
  one to the provider.
\<close>

theorem webhook_faults_swallowed:
  assumes "constructEvent e (raw_body req) (stripe_signature req) = Returned ev"
  shows "fst (handleSubscriptionUpdate cfg e (ev_object ev) w) = Returned ()
       \<and> fst (handleSubscriptionDeleted e (ev_object ev) w) = Returned ()
       \<and> fst (handlePaymentFailed e (ev_object ev) w) = Returned ()
       \<and> fst (webhook_stripe cfg e req w) = received
       \<and> code received = 200
       \<and> body received = Json [(''received'', Bool True)]
       \<and> length (filter is_store_call (new_calls w (snd (webhook_stripe cfg e req w)))) \<le> 1
       \<and> length (filter (\<lambda>c. \<not> is_store_call c)
                   (new_calls w (snd (webhook_stripe cfg e req w)))) \<le> 1"
proof -
  obtain cs where cs: "trace (snd (dispatch cfg e ev w)) = trace w @ cs"
      "length (filter is_store_call cs) \<le> 1"
      "length (filter (\<lambda>c. \<not> is_store_call c) cs) \<le> 1"
    using dispatch_trace [of cfg e ev w] by blast
  have "new_calls w (snd (webhook_stripe cfg e req w)) = cs"
    using cs(1) by (simp add: webhook_verified [OF assms] new_calls_append)
  with cs(2,3) show ?thesis
    by (simp add: webhook_verified [OF assms] handleSubscriptionUpdate_def
                  handleSubscriptionDeleted_def handlePaymentFailed_def swallow_fst
                  received_def)
qed

theorem webhook_faults_swallowed_witness:
  "threw (fst (handleSubscriptionDeleted_try outage_env demo_subscription demo_world))
   \<and> threw (fst (handlePaymentFailed_try outage_env demo_subscription demo_world))
   \<and> fst (webhook_stripe demo_config outage_env (signed ''customer.subscription.deleted'')
             demo_world) = received
   \<and> fst (webhook_stripe demo_config outage_env (signed ''invoice.payment_failed'')
             demo_world) = received"
proof -
  have 1: "constructEvent outage_env (raw_body (signed ''customer.subscription.deleted''))
             (stripe_signature (signed ''customer.subscription.deleted''))
           = Returned \<lparr> ev_type = ''customer.subscription.deleted'',
                         ev_object = demo_subscription \<rparr>"
    by (simp add: outage_env_def demo_env_def signed_def)
  have 2: "constructEvent outage_env (raw_body (signed ''invoice.payment_failed''))
             (stripe_signature (signed ''invoice.payment_failed''))
           = Returned \<lparr> ev_type = ''invoice.payment_failed'', ev_object = demo_subscription \<rparr>"
    by (simp add: outage_env_def demo_env_def signed_def)
  have 3: "threw (fst (handleSubscriptionDeleted_try outage_env demo_subscription demo_world))"
    by (simp add: handleSubscriptionDeleted_try_def retrieve_def outage_env_def)
  have 4: "threw (fst (handlePaymentFailed_try outage_env demo_subscription demo_world))"
    by (simp add: handlePaymentFailed_try_def store_call_def outage_env_def)
  show ?thesis
    using webhook_faults_swallowed [OF 1, of demo_config demo_world]
          webhook_faults_swallowed [OF 2, of demo_config demo_world] 3 4
    by simp
qed

text \<open>
  C4, as amended. For a \<^verbatim>\<open>customer.subscription.deleted\<close> event, when the customer lookup
  that the helper awaits before the update returns (and the store carries out the
  update), every stored record of that customer has afterwards status \<^verbatim>\<open>"canceled"\<close> and
  tier \<^verbatim>\<open>"free"\<close> (and a new write time), with its other columns as before; no row is
  removed or added, and the records of other customers are as before.
\<close>

theorem subscription_deleted_marks_canceled:
  assumes "constructEvent e (raw_body req) (stripe_signature req) = Returned ev"
    and "ev_type ev = ''customer.subscription.deleted''"
    and "customers_retrieve e (obj_customer (ev_object ev)) = Returned c"
    and "store_fault e = Healthy"
  shows "fst (webhook_stripe cfg e req w) = received
       \<and> length (table (snd (webhook_stripe cfg e req w))) = length (table w)
       \<and> (\<forall>i < length (table w).
            table (snd (webhook_stripe cfg e req w)) ! i =
              (if stripe_customer_id (table w ! i) = Str (obj_customer (ev_object ev))
               then (table w ! i)\<lparr> status := Str ''canceled'',
                                    subscription_tier := Str ''free'',
                                    updated_at := Str (toISOString e (now e)) \<rparr>
               else table w ! i))"
  using assms
  by (simp add: webhook_verified dispatch_deleted deleted_try_world store_call_world
                store_perform_update update_rows_length update_rows_nth
                column_stripe_customer_id overwrite_canceled)

theorem subscription_deleted_marks_canceled_witness:
  "fst (webhook_stripe demo_config demo_env (signed ''customer.subscription.deleted'') demo_world)
     = received
   \<and> length (table (snd (webhook_stripe demo_config demo_env
                          (signed ''customer.subscription.deleted'') demo_world))) = 2
   \<and> table (snd (webhook_stripe demo_config demo_env
                   (signed ''customer.subscription.deleted'') demo_world)) ! 0 = other_row
   \<and> table (snd (webhook_stripe demo_config demo_env
                   (signed ''customer.subscription.deleted'') demo_world)) ! 1
       = demo_row\<lparr> status := Str ''canceled'', subscription_tier := Str ''free'',
                   updated_at := Str ''2030-01-01T00:00:00.000Z'' \<rparr>"
proof -
  let ?ev = "\<lparr> ev_type = ''customer.subscription.deleted'', ev_object = demo_subscription \<rparr>"
  have 2: "ev_type ?ev = ''customer.subscription.deleted''" by simp
  have 3: "customers_retrieve demo_env (obj_customer (ev_object ?ev))
             = Returned \<lparr> cust_id = ''cus_1'', cust_email = Str ''ann@example.com'' \<rparr>"
    by (simp add: demo_env_def demo_subscription_def)
  have 4: "store_fault demo_env = Healthy" by (simp add: demo_env_def)
  note T = subscription_deleted_marks_canceled [OF demo_verified 2 3 4, of demo_config demo_world]
  have rows: "table demo_world ! 0 = other_row" "table demo_world ! Suc 0 = demo_row"
    "length (table demo_world) = 2"
    by (simp_all add: demo_world_def)
  have ids: "stripe_customer_id other_row \<noteq> Str (obj_customer demo_subscription)"
    "stripe_customer_id demo_row = Str (obj_customer demo_subscription)"
    "toISOString demo_env (now demo_env) = ''2030-01-01T00:00:00.000Z''"
    by (simp_all add: other_row_def demo_row_def demo_subscription_def demo_env_def demo_iso_def)
  have "0 < length (table demo_world)" "1 < length (table demo_world)"
    by (simp_all add: rows)
  with T show ?thesis by (simp add: rows ids)
qed

text \<open>
  C4 as stated speaks of every such event for a customer with a stored record. With a
  working store and a matching record, but a customer lookup that throws, the helper
  leaves its \<^verbatim>\<open>try\<close> before the update: the only call made is the lookup, the table is as
  before, the record is not canceled, and the answer is still \<^verbatim>\<open>{ received: true }\<close>.
\<close>

theorem subscription_deleted_lookup_throws:
  "store_fault lookup_down_env = Healthy
   \<and> table demo_world ! Suc 0 = demo_row
   \<and> stripe_customer_id demo_row = Str (obj_customer demo_subscription)
   \<and> status demo_row = Str ''active''
   \<and> fst (webhook_stripe demo_config lookup_down_env (signed ''customer.subscription.deleted'')
           demo_world) = received
   \<and> new_calls demo_world
        (snd (webhook_stripe demo_config lookup_down_env
                (signed ''customer.subscription.deleted'') demo_world))
       = [RetrieveCustomer ''cus_1'']
   \<and> table (snd (webhook_stripe demo_config lookup_down_env
                   (signed ''customer.subscription.deleted'') demo_world))
       = table demo_world
   \<and> status (table (snd (webhook_stripe demo_config lookup_down_env
                           (signed ''customer.subscription.deleted'') demo_world)) ! Suc 0)
       \<noteq> Str ''canceled''"
  by (simp add: lookup_down_env_def demo_env_def demo_world_def demo_row_def
                demo_subscription_def signed_def webhook_stripe_def dispatch_def
                handleSubscriptionDeleted_def handleSubscriptionDeleted_try_def swallow_def
                retrieve_def new_calls_def)

text \<open>
  C5. For an \<^verbatim>\<open>invoice.payment_failed\<close> event, when the store carries out the update, every
  stored record of that customer has afterwards status \<^verbatim>\<open>"past_due"\<close> and a new write
  time; its tier and every other column are as before, and so are all other records.
\<close>

theorem payment_failed_marks_past_due:
  assumes "constructEvent e (raw_body req) (stripe_signature req) = Returned ev"
    and "ev_type ev = ''invoice.payment_failed''"
    and "store_fault e = Healthy"
  shows "fst (webhook_stripe cfg e req w) = received
       \<and> length (table (snd (webhook_stripe cfg e req w))) = length (table w)
       \<and> (\<forall>i < length (table w).
            table (snd (webhook_stripe cfg e req w)) ! i =
              (if stripe_customer_id (table w ! i) = Str (obj_customer (ev_object ev))
               then (table w ! i)\<lparr> status := Str ''past_due'',
                                    updated_at := Str (toISOString e (now e)) \<rparr>
               else table w ! i)
            \<and> subscription_tier (table (snd (webhook_stripe cfg e req w)) ! i)
                = subscription_tier (table w ! i))"
  using assms
  by (simp add: webhook_verified dispatch_payment_failed failed_try_world store_call_world
                store_perform_update update_rows_length update_rows_nth
                column_stripe_customer_id overwrite_past_due)

theorem payment_failed_marks_past_due_witness:
  "fst (webhook_stripe demo_config demo_env (signed ''invoice.payment_failed'') demo_world)
     = received
   \<and> length (table (snd (webhook_stripe demo_config demo_env
                          (signed ''invoice.payment_failed'') demo_world))) = 2
   \<and> table (snd (webhook_stripe demo_config demo_env
                   (signed ''invoice.payment_failed'') demo_world)) ! 0 = other_row
   \<and> table (snd (webhook_stripe demo_config demo_env
                   (signed ''invoice.payment_failed'') demo_world)) ! 1
       = demo_row\<lparr> status := Str ''past_due'',
                   updated_at := Str ''2030-01-01T00:00:00.000Z'' \<rparr>
   \<and> subscription_tier (table (snd (webhook_stripe demo_config demo_env
                   (signed ''invoice.payment_failed'') demo_world)) ! 1) = Str ''premium''"
proof -
  let ?ev = "\<lparr> ev_type = ''invoice.payment_failed'', ev_object = demo_subscription \<rparr>"
  have 2: "ev_type ?ev = ''invoice.payment_failed''" by simp
  have 3: "store_fault demo_env = Healthy" by (simp add: demo_env_def)
  note T = payment_failed_marks_past_due [OF demo_verified 2 3, of demo_config demo_world]
  have rows: "table demo_world ! 0 = other_row" "table demo_world ! Suc 0 = demo_row"
    "length (table demo_world) = 2"
    by (simp_all add: demo_world_def)
  have ids: "stripe_customer_id other_row \<noteq> Str (obj_customer demo_subscription)"
    "stripe_customer_id demo_row = Str (obj_customer demo_subscription)"
    "toISOString demo_env (now demo_env) = ''2030-01-01T00:00:00.000Z''"
    "subscription_tier demo_row = Str ''premium''"
    by (simp_all add: other_row_def demo_row_def demo_subscription_def demo_env_def demo_iso_def)
  have "0 < length (table demo_world)" "1 < length (table demo_world)"
    by (simp_all add: rows)
  with T show ?thesis by (simp add: rows ids)
qed

text \<open>
  C9. The claim asks that the written tier is the mapped tier of the first line item's
  price identifier, and \<^verbatim>\<open>"unknown"\<close> for any identifier absent from the mapping. For the
  identifier \<^verbatim>\<open>price_legacy\<close> the fallback gives \<^verbatim>\<open>"unknown"\<close>. The identifier
  \<^verbatim>\<open>constructor\<close> is absent from the mapping too, but \<^verbatim>\<open>TIER_MAPPING[priceId]\<close> finds the
  member of that name which every object literal inherits; it is truthy, so the fallback
  \<^verbatim>\<open>|| 'unknown'\<close> is not taken and the upsert the request sends carries a function as its
  tier, not \<^verbatim>\<open>"unknown"\<close>.
\<close>

theorem inherited_name_is_not_unknown:
  "TIER_MAPPING demo_config ''constructor'' = None
   \<and> resolve_tier demo_config ''constructor'' = Function ''constructor''
   \<and> resolve_tier demo_config ''price_legacy'' = Str ''unknown''
   \<and> fst (webhook_stripe demo_config inherited_env (signed ''customer.subscription.updated'')
           demo_world) = received
   \<and> new_calls demo_world
        (snd (webhook_stripe demo_config inherited_env (signed ''customer.subscription.updated'')
                demo_world))
       = [RetrieveCustomer ''cus_1'',
          Upsert \<lparr> user_id = Str ''ann@example.com'', email = Str ''ann@example.com'',
                   stripe_customer_id = Str ''cus_1'',
                   subscription_tier = Function ''constructor'',
                   status = Str ''active'', stripe_subscription_id = Str ''sub_1'',
                   current_period_end = Str ''2031-01-01T00:00:00.000Z'',
                   updated_at = Str ''2030-01-01T00:00:00.000Z'' \<rparr>]"
proof -
  have t: "TIER_MAPPING demo_config ''constructor'' = None"
    "TIER_MAPPING demo_config ''price_legacy'' = None"
    by (simp_all add: TIER_MAPPING_def demo_config_def env_key_def)
  have r: "resolve_tier demo_config ''constructor'' = Function ''constructor''"
    "resolve_tier demo_config ''price_legacy'' = Str ''unknown''"
    by (simp_all add: resolve_tier_def get_property_def t Object_prototype_def)
  have w: "webhook_stripe demo_config inherited_env (signed ''customer.subscription.updated'')
             demo_world
           = (received,
              snd (handleSubscriptionUpdate_try demo_config inherited_env
                     (demo_subscription\<lparr> obj_items := [''constructor''] \<rparr>) demo_world))"
    by (simp add: webhook_verified [where ev = "\<lparr> ev_type = ''customer.subscription.updated'',
                     ev_object = demo_subscription\<lparr> obj_items := [''constructor''] \<rparr> \<rparr>"]
                  inherited_env_def signed_def dispatch_update)
  have p: "period_end_iso inherited_env (demo_subscription\<lparr> obj_items := [''constructor''] \<rparr>)
             = Some ''2031-01-01T00:00:00.000Z''"
    by (simp add: period_end_iso_def inherited_env_def demo_env_def demo_subscription_def
                  demo_iso_def)
  have c: "customers_retrieve inherited_env ''cus_1''
             = Returned \<lparr> cust_id = ''cus_1'', cust_email = Str ''ann@example.com'' \<rparr>"
    "toISOString inherited_env (now inherited_env) = ''2030-01-01T00:00:00.000Z''"
    "obj_customer demo_subscription = ''cus_1''" "obj_status demo_subscription = ''active''"
    "obj_id demo_subscription = ''sub_1''"
    by (simp_all add: inherited_env_def demo_env_def demo_iso_def demo_subscription_def)
  show ?thesis
    by (simp add: t r w update_try_world p c store_call_world new_calls_def)
qed

text \<open>
  C10. For a subscription created or updated event whose line-item list is empty, or
  whose customer lookup throws, the body of \<^verbatim>\<open>handleSubscriptionUpdate\<close> throws before the
  record is built, the helper itself returns normally, the only call made is the customer
  lookup (no upsert is sent), the table is as before, and the answer is 200 with
  \<^verbatim>\<open>{ received: true }\<close>.
\<close>

theorem subscription_update_aborted:
  assumes "constructEvent e (raw_body req) (stripe_signature req) = Returned ev"
    and "ev_type ev = ''customer.subscription.created''
         \<or> ev_type ev = ''customer.subscription.updated''"
    and "obj_items (ev_object ev) = []
         \<or> threw (customers_retrieve e (obj_customer (ev_object ev)))"
  shows "threw (fst (handleSubscriptionUpdate_try cfg e (ev_object ev) w))
       \<and> fst (handleSubscriptionUpdate cfg e (ev_object ev) w) = Returned ()
       \<and> new_calls w (snd (webhook_stripe cfg e req w))
           = [RetrieveCustomer (obj_customer (ev_object ev))]
       \<and> table (snd (webhook_stripe cfg e req w)) = table w
       \<and> fst (webhook_stripe cfg e req w) = received"
proof -
  have "threw (fst (handleSubscriptionUpdate_try cfg e (ev_object ev) w))"
    using assms(3)
    by (auto simp: handleSubscriptionUpdate_try_def retrieve_eq split: outcome.splits)
  moreover have "snd (handleSubscriptionUpdate_try cfg e (ev_object ev) w) =
      \<lparr> table = table w, trace = trace w @ [RetrieveCustomer (obj_customer (ev_object ev))] \<rparr>"
    using assms(3) by (auto simp: update_try_world split: outcome.splits list.splits option.splits)
  ultimately show ?thesis
    using assms(1,2)
    by (simp add: webhook_verified dispatch_update handleSubscriptionUpdate_def swallow_fst
                  new_calls_def)
qed


theorem subscription_update_aborted_witness:
  "threw (fst (handleSubscriptionUpdate_try demo_config empty_env
                 (demo_subscription\<lparr> obj_items := [] \<rparr>) demo_world))
   \<and> new_calls demo_world
        (snd (webhook_stripe demo_config empty_env (signed ''customer.subscription.created'')
                demo_world)) = [RetrieveCustomer ''cus_1'']
   \<and> table (snd (webhook_stripe demo_config empty_env (signed ''customer.subscription.created'')
                   demo_world)) = table demo_world
   \<and> fst (webhook_stripe demo_config empty_env (signed ''customer.subscription.created'')
           demo_world) = received
   \<and> threw (fst (handleSubscriptionUpdate_try demo_config outage_env demo_subscription
                   demo_world))
   \<and> new_calls demo_world
        (snd (webhook_stripe demo_config outage_env (signed ''customer.subscription.updated'')
                demo_world)) = [RetrieveCustomer ''cus_1'']
   \<and> table (snd (webhook_stripe demo_config outage_env (signed ''customer.subscription.updated'')
                   demo_world)) = table demo_world
   \<and> fst (webhook_stripe demo_config outage_env (signed ''customer.subscription.updated'')
           demo_world) = received"
proof -
  let ?ev1 = "\<lparr> ev_type = ''customer.subscription.created'',
                 ev_object = demo_subscription\<lparr> obj_items := [] \<rparr> \<rparr>"
  let ?ev2 = "\<lparr> ev_type = ''customer.subscription.updated'', ev_object = demo_subscription \<rparr>"
  have a1: "constructEvent empty_env (raw_body (signed ''customer.subscription.created''))
              (stripe_signature (signed ''customer.subscription.created'')) = Returned ?ev1"
    by (simp add: empty_env_def signed_def)
  have a2: "ev_type ?ev1 = ''customer.subscription.created''
            \<or> ev_type ?ev1 = ''customer.subscription.updated''" by simp
  have a3: "obj_items (ev_object ?ev1) = []
            \<or> threw (customers_retrieve empty_env (obj_customer (ev_object ?ev1)))" by simp
  have b1: "constructEvent outage_env (raw_body (signed ''customer.subscription.updated''))
              (stripe_signature (signed ''customer.subscription.updated'')) = Returned ?ev2"
    by (simp add: outage_env_def demo_env_def signed_def)
  have b2: "ev_type ?ev2 = ''customer.subscription.created''
            \<or> ev_type ?ev2 = ''customer.subscription.updated''" by simp
  have b3: "obj_items (ev_object ?ev2) = []
            \<or> threw (customers_retrieve outage_env (obj_customer (ev_object ?ev2)))"
    by (simp add: outage_env_def)
  have c: "obj_customer demo_subscription = ''cus_1''" by (simp add: demo_subscription_def)
  show ?thesis
    using subscription_update_aborted [OF a1 a2 a3, of demo_config demo_world]
          subscription_update_aborted [OF b1 b2 b3, of demo_config demo_world]
    by (simp add: c)
qed

end
